theory Spec2Isabelle
  imports Complex_Main "HOL-Library.Word"
begin

unbundle bit_operations_syntax

chapter \<open>Electroplating calculator: geometry ingestion, surface area, plating formulas\<close>

text \<open>
  A shallow embedding of the TypeScript sources: the plating formulas and the duration
  codec (\<^verbatim>\<open>utils/electroplating.ts\<close>), the unit conversion and the area
  engine (\<^verbatim>\<open>utils/geometry.ts\<close>), the two STL parsers
  (\<^verbatim>\<open>utils/stlParser.ts\<close>), the 3MF parser
  (\<^verbatim>\<open>utils/threeMFParser.ts\<close>) and the batch boundary of
  \<^verbatim>\<open>components/FileDropZone.tsx\<close>.
\<close>

section \<open>JavaScript numbers\<close>

text \<open>
  A JavaScript \<^verbatim>\<open>number\<close> is modelled as an exact real extended with
  \<^verbatim>\<open>NaN\<close> and the two infinities. Arithmetic on finite values is exact:
  the rounding of IEEE-754 doubles, overflow to an infinity and the sign of zero are not
  part of the model (its zero is \<^verbatim>\<open>+0\<close>). The operators follow
  ECMA-262 on everything the model distinguishes.
\<close>

datatype jsnum = NaN | PInf | NInf | Fin real

fun jneg :: "jsnum \<Rightarrow> jsnum" where
  "jneg NaN = NaN"
| "jneg PInf = NInf"
| "jneg NInf = PInf"
| "jneg (Fin x) = Fin (- x)"

fun jadd :: "jsnum \<Rightarrow> jsnum \<Rightarrow> jsnum" where
  "jadd NaN _ = NaN"
| "jadd _ NaN = NaN"
| "jadd PInf NInf = NaN"
| "jadd NInf PInf = NaN"
| "jadd PInf _ = PInf"
| "jadd NInf _ = NInf"
| "jadd _ PInf = PInf"
| "jadd _ NInf = NInf"
| "jadd (Fin x) (Fin y) = Fin (x + y)"

definition jsub :: "jsnum \<Rightarrow> jsnum \<Rightarrow> jsnum" where
  "jsub x y = jadd x (jneg y)"

text \<open>The sign of an infinite product or quotient: positive when the signs agree.\<close>

definition signed_inf :: "bool \<Rightarrow> jsnum" where
  "signed_inf positive = (if positive then PInf else NInf)"

fun jmul :: "jsnum \<Rightarrow> jsnum \<Rightarrow> jsnum" where
  "jmul NaN _ = NaN"
| "jmul _ NaN = NaN"
| "jmul PInf PInf = PInf"
| "jmul PInf NInf = NInf"
| "jmul NInf PInf = NInf"
| "jmul NInf NInf = PInf"
| "jmul PInf (Fin y) = (if y = 0 then NaN else signed_inf (0 < y))"
| "jmul NInf (Fin y) = (if y = 0 then NaN else signed_inf (y < 0))"
| "jmul (Fin x) PInf = (if x = 0 then NaN else signed_inf (0 < x))"
| "jmul (Fin x) NInf = (if x = 0 then NaN else signed_inf (x < 0))"
| "jmul (Fin x) (Fin y) = Fin (x * y)"

fun jdiv :: "jsnum \<Rightarrow> jsnum \<Rightarrow> jsnum" where
  "jdiv NaN _ = NaN"
| "jdiv _ NaN = NaN"
| "jdiv PInf (Fin y) = signed_inf (0 \<le> y)"
| "jdiv NInf (Fin y) = signed_inf (y < 0)"
| "jdiv PInf _ = NaN"
| "jdiv NInf _ = NaN"
| "jdiv (Fin x) PInf = Fin 0"
| "jdiv (Fin x) NInf = Fin 0"
| "jdiv (Fin x) (Fin y) =
     (if y = 0 then (if x = 0 then NaN else signed_inf (0 < x)) else Fin (x / y))"

text \<open>\<^verbatim>\<open>Math.sqrt\<close>, \<^verbatim>\<open>Math.floor\<close> and the remainder operator
  \<^verbatim>\<open>%\<close> (truncated: the result has the sign of the dividend).\<close>

fun jsqrt :: "jsnum \<Rightarrow> jsnum" where
  "jsqrt NaN = NaN"
| "jsqrt PInf = PInf"
| "jsqrt NInf = NaN"
| "jsqrt (Fin x) = (if x < 0 then NaN else Fin (sqrt x))"




fun isNaN :: "jsnum \<Rightarrow> bool" where
  "isNaN NaN = True"
| "isNaN _ = False"

text \<open>The relational operators: every comparison with \<^verbatim>\<open>NaN\<close> is false.\<close>

fun jless :: "jsnum \<Rightarrow> jsnum \<Rightarrow> bool" where
  "jless NaN _ = False"
| "jless _ NaN = False"
| "jless PInf _ = False"
| "jless _ NInf = False"
| "jless NInf _ = True"
| "jless _ PInf = True"
| "jless (Fin x) (Fin y) = (x < y)"

fun jle :: "jsnum \<Rightarrow> jsnum \<Rightarrow> bool" where
  "jle NaN _ = False"
| "jle _ NaN = False"
| "jle x y = (\<not> jless y x)"

text \<open>Strict equality \<^verbatim>\<open>===\<close> on numbers: \<^verbatim>\<open>NaN\<close> equals nothing.\<close>

definition jeq :: "jsnum \<Rightarrow> jsnum \<Rightarrow> bool" where
  "jeq x y = (\<not> isNaN x \<and> \<not> isNaN y \<and> x = y)"

section \<open>Plating formulas (utils/electroplating.ts)\<close>

datatype Material = Copper | Nickel

fun FARADAY_CONSTANTS :: "Material \<Rightarrow> jsnum" where
  "FARADAY_CONSTANTS Copper = Fin 270.5"
| "FARADAY_CONSTANTS Nickel = Fin 292.6"



definition calculateDepositionRate :: "jsnum \<Rightarrow> jsnum \<Rightarrow> Material \<Rightarrow> jsnum" where
  "calculateDepositionRate currentDensity efficiency material =
     (let K = FARADAY_CONSTANTS material
      in jdiv (jmul (jmul (Fin 60) currentDensity) efficiency) K)"

definition calculateTotalCurrent :: "jsnum \<Rightarrow> jsnum \<Rightarrow> jsnum" where
  "calculateTotalCurrent surfaceArea_dm2 currentDensity = jmul surfaceArea_dm2 currentDensity"


section \<open>JavaScript strings and the conversions between strings and numbers\<close>

text \<open>
  A string is a list of code units below 256 (\<^typ>\<open>char\<close>), which covers ASCII and
  Latin-1; code units above 255 are outside the model. The white space of
  \<^verbatim>\<open>trim\<close>, of the regular expression class \<^verbatim>\<open>\s\<close> and of the numeric
  string grammar is TAB, LF, VT, FF, CR, SP and NBSP in that range.
\<close>

definition is_ws :: "char \<Rightarrow> bool" where
  "is_ws ch = ((of_char ch :: nat) \<in> {9, 10, 11, 12, 13, 32, 160})"

definition is_digit :: "char \<Rightarrow> bool" where
  "is_digit ch = (48 \<le> (of_char ch :: nat) \<and> (of_char ch :: nat) \<le> 57)"

definition digit_val :: "char \<Rightarrow> nat" where
  "digit_val ch = of_char ch - 48"

definition js_trimStart :: "string \<Rightarrow> string" where
  "js_trimStart s = dropWhile is_ws s"

definition js_trim :: "string \<Rightarrow> string" where
  "js_trim s = rev (dropWhile is_ws (rev (dropWhile is_ws s)))"

definition js_startsWith :: "string \<Rightarrow> string \<Rightarrow> bool" where
  "js_startsWith s p = (take (length p) s = p)"

definition js_endsWith :: "string \<Rightarrow> string \<Rightarrow> bool" where
  "js_endsWith s p = (length p \<le> length s \<and> drop (length s - length p) s = p)"

fun js_includes :: "string \<Rightarrow> string \<Rightarrow> bool" where
  "js_includes [] p = (p = [])"
| "js_includes (ch # s) p = (js_startsWith (ch # s) p \<or> js_includes s p)"

text \<open>\<^verbatim>\<open>toLowerCase\<close> on the letters of ASCII and Latin-1.\<close>

definition lower_char :: "char \<Rightarrow> char" where
  "lower_char ch =
     (let n = (of_char ch :: nat)
      in if (65 \<le> n \<and> n \<le> 90) \<or> (192 \<le> n \<and> n \<le> 222 \<and> n \<noteq> 215)
         then char_of (n + 32) else ch)"

definition js_toLowerCase :: "string \<Rightarrow> string" where
  "js_toLowerCase s = map lower_char s"

text \<open>\<^verbatim>\<open>s.split(sep)\<close> for a one-character separator: \<open>n\<close> separators give
  \<open>n + 1\<close> parts, so the result is never empty.\<close>

fun js_split :: "char \<Rightarrow> string \<Rightarrow> string list" where
  "js_split sep [] = [[]]"
| "js_split sep (ch # s) =
     (if ch = sep then [] # js_split sep s
      else (case js_split sep s of [] \<Rightarrow> [[ch]] | p # ps \<Rightarrow> (ch # p) # ps))"

text \<open>\<^verbatim>\<open>s.split(/\s+/)\<close>: the separators are the maximal runs of white space. The
  flag says that the previous character belonged to a run.\<close>

fun split_ws_from :: "bool \<Rightarrow> string \<Rightarrow> string list" where
  "split_ws_from in_run [] = [[]]"
| "split_ws_from in_run (ch # s) =
     (if is_ws ch then (if in_run then split_ws_from True s else [] # split_ws_from True s)
      else (case split_ws_from False s of [] \<Rightarrow> [[ch]] | p # ps \<Rightarrow> (ch # p) # ps))"

definition js_split_ws :: "string \<Rightarrow> string list" where
  "js_split_ws s = split_ws_from False s"


subsection \<open>Numeric literals\<close>

definition dec_val :: "string \<Rightarrow> nat" where
  "dec_val ds = foldl (\<lambda>acc ch. 10 * acc + digit_val ch) 0 ds"

definition pow10 :: "int \<Rightarrow> real" where
  "pow10 k = (if 0 \<le> k then 10 ^ nat k else 1 / 10 ^ nat (- k))"

text \<open>\<^verbatim>\<open>ExponentPart\<close>: \<^verbatim>\<open>e\<close> or \<^verbatim>\<open>E\<close>, an optional sign, at least one
  digit. The result is the exponent and the unread rest.\<close>

definition scan_exponent :: "string \<Rightarrow> (int \<times> string) option" where
  "scan_exponent s =
     (case s of
        [] \<Rightarrow> None
      | ch # r \<Rightarrow>
          if ch = CHR ''e'' \<or> ch = CHR ''E'' then
            (let neg = (r \<noteq> [] \<and> hd r = CHR ''-'');
                 r' = (if r \<noteq> [] \<and> (hd r = CHR ''+'' \<or> hd r = CHR ''-'') then tl r else r);
                 ds = takeWhile is_digit r'
             in if ds = [] then None
                else Some ((if neg then - int (dec_val ds) else int (dec_val ds)),
                           dropWhile is_digit r'))
          else None)"

text \<open>The longest prefix that is a \<^verbatim>\<open>StrUnsignedDecimalLiteral\<close> other than
  \<^verbatim>\<open>Infinity\<close>: digits, an optional fraction, an optional exponent; at least one
  digit before the exponent.\<close>

definition scan_unsigned_decimal :: "string \<Rightarrow> (real \<times> string) option" where
  "scan_unsigned_decimal s =
     (let ip = takeWhile is_digit s;
          r1 = dropWhile is_digit s;
          dot = (r1 \<noteq> [] \<and> hd r1 = CHR ''.'');
          fp = (if dot then takeWhile is_digit (tl r1) else []);
          r2 = (if dot then dropWhile is_digit (tl r1) else r1)
      in if ip = [] \<and> fp = [] then None
         else
           (let m = real (dec_val ip) + real (dec_val fp) / 10 ^ length fp
            in case scan_exponent r2 of
                 Some (k, r3) \<Rightarrow> Some (m * pow10 k, r3)
               | None \<Rightarrow> Some (m, r2)))"

text \<open>\<^verbatim>\<open>StrDecimalLiteral\<close>: an optional sign, then \<^verbatim>\<open>Infinity\<close> or an unsigned
  decimal literal.\<close>

definition scan_str_decimal :: "string \<Rightarrow> (jsnum \<times> string) option" where
  "scan_str_decimal s =
     (let neg = (s \<noteq> [] \<and> hd s = CHR ''-'');
          r = (if s \<noteq> [] \<and> (hd s = CHR ''+'' \<or> hd s = CHR ''-'') then tl s else s)
      in if js_startsWith r ''Infinity'' then Some (if neg then NInf else PInf, drop 8 r)
         else (case scan_unsigned_decimal r of
                 None \<Rightarrow> None
               | Some (v, rest) \<Rightarrow> Some (Fin (if neg then - v else v), rest)))"

text \<open>\<^verbatim>\<open>parseFloat\<close>: leading white space is skipped, the longest prefix that is a
  decimal literal is read, anything after it is ignored; no such prefix gives
  \<^verbatim>\<open>NaN\<close>.\<close>

definition js_parseFloat :: "string \<Rightarrow> jsnum" where
  "js_parseFloat s =
     (case scan_str_decimal (js_trimStart s) of None \<Rightarrow> NaN | Some (v, _) \<Rightarrow> v)"

text \<open>\<^verbatim>\<open>parseInt(s, 10)\<close>: leading white space, an optional sign, the longest
  prefix of decimal digits.\<close>

definition js_parseInt10 :: "string \<Rightarrow> jsnum" where
  "js_parseInt10 s =
     (let t = js_trimStart s;
          neg = (t \<noteq> [] \<and> hd t = CHR ''-'');
          r = (if t \<noteq> [] \<and> (hd t = CHR ''+'' \<or> hd t = CHR ''-'') then tl t else t);
          ds = takeWhile is_digit r
      in if ds = [] then NaN
         else Fin (if neg then - real (dec_val ds) else real (dec_val ds)))"




subsection \<open>Numbers to strings\<close>





section \<open>The duration codec (utils/electroplating.ts)\<close>




section \<open>Unit conversion and the area engine (utils/geometry.ts)\<close>

text \<open>A vertex is the three-element array \<^verbatim>\<open>[x, y, z]\<close>; the fields
  \<^verbatim>\<open>a\<close>, \<^verbatim>\<open>b\<close>, \<^verbatim>\<open>c\<close> of a \<^verbatim>\<open>Triangle\<close> are
  \<open>tri_a\<close>, \<open>tri_b\<close>, \<open>tri_c\<close> here.\<close>

type_synonym vec = "jsnum \<times> jsnum \<times> jsnum"

datatype Triangle = Triangle (tri_a: vec) (tri_b: vec) (tri_c: vec)

text \<open>The table \<^verbatim>\<open>conversions\<close> of \<^verbatim>\<open>toMillimeters\<close>. The type
  \<^verbatim>\<open>STLUnit\<close> is erased when the program runs, so a unit is the string it is at
  run time; a key that the table does not have reads as \<^verbatim>\<open>undefined\<close>, and
  the product of a number and \<^verbatim>\<open>undefined\<close> is \<^verbatim>\<open>NaN\<close>. (A key found
  on \<^verbatim>\<open>Object.prototype\<close> reads as a function or an object, whose product with a
  number is \<^verbatim>\<open>NaN\<close> as well.)\<close>

definition conversions :: "string \<Rightarrow> jsnum option" where
  "conversions = map_of [(''mm'', Fin 1), (''cm'', Fin 10), (''inch'', Fin 25.4)]"

definition toMillimeters :: "jsnum \<Rightarrow> string \<Rightarrow> jsnum" where
  "toMillimeters v u = jmul v (case conversions u of None \<Rightarrow> NaN | Some k \<Rightarrow> k)"

definition mm2ToDm2 :: "jsnum \<Rightarrow> jsnum" where
  "mm2ToDm2 mm2 = jdiv mm2 (Fin 10000)"

definition calculateTriangleArea :: "Triangle \<Rightarrow> jsnum" where
  "calculateTriangleArea triangle =
     (case tri_a triangle of (ax, ay, az) \<Rightarrow>
      case tri_b triangle of (bx, by, bz) \<Rightarrow>
      case tri_c triangle of (cx, cy, cz) \<Rightarrow>
        (let ba0 = jsub bx ax; ba1 = jsub by ay; ba2 = jsub bz az;
             ca0 = jsub cx ax; ca1 = jsub cy ay; ca2 = jsub cz az;
             crossX = jsub (jmul ba1 ca2) (jmul ba2 ca1);
             crossY = jsub (jmul ba2 ca0) (jmul ba0 ca2);
             crossZ = jsub (jmul ba0 ca1) (jmul ba1 ca0);
             magnitude = jsqrt (jadd (jadd (jmul crossX crossX) (jmul crossY crossY))
                                     (jmul crossZ crossZ))
         in jmul (Fin 0.5) magnitude))"

definition convert_vec :: "string \<Rightarrow> vec \<Rightarrow> vec" where
  "convert_vec u p =
     (case p of (x, y, z) \<Rightarrow> (toMillimeters x u, toMillimeters y u, toMillimeters z u))"

definition convertedTriangle :: "string \<Rightarrow> Triangle \<Rightarrow> Triangle" where
  "convertedTriangle u triangle =
     Triangle (convert_vec u (tri_a triangle)) (convert_vec u (tri_b triangle))
              (convert_vec u (tri_c triangle))"

definition calculateSurfaceArea :: "Triangle list \<Rightarrow> string \<Rightarrow> jsnum" where
  "calculateSurfaceArea triangles u =
     mm2ToDm2
       (foldl (\<lambda>totalArea_mm2 triangle.
                 jadd totalArea_mm2 (calculateTriangleArea (convertedTriangle u triangle)))
              (Fin 0) triangles)"





section \<open>Errors\<close>

text \<open>The exceptions the modelled code raises: the \<^verbatim>\<open>RangeError\<close> of a
  \<^verbatim>\<open>DataView\<close> read outside the buffer, the \<^verbatim>\<open>TypeError\<close> of a property
  read on \<^verbatim>\<open>undefined\<close>, the \<^verbatim>\<open>Error\<close> objects the program throws with a
  message, and the failures of the platform (reading a file, opening an archive).\<close>

datatype js_error = RangeError | TypeError | Error string | PlatformError

section \<open>The 3MF parser (utils/threeMFParser.ts)\<close>

subsection \<open>The document\<close>

text \<open>The DOM of the model file: an element has a name, attributes and children.
  \<^verbatim>\<open>querySelectorAll\<close> with a type selector lists the descendants with that name in
  document order, \<^verbatim>\<open>querySelector\<close> is the first of them. On the document the
  root element is among the candidates; on an element only its proper descendants.\<close>

datatype xml = Elem (xml_tag: string) (xml_attrs: "(string \<times> string) list") (xml_children: "xml list")

fun descendants :: "xml \<Rightarrow> xml list" where
  "descendants (Elem t as cs) = concat (map (\<lambda>c. c # descendants c) cs)"

definition querySelectorAll :: "xml \<Rightarrow> string \<Rightarrow> xml list" where
  "querySelectorAll e name = filter (\<lambda>x. xml_tag x = name) (descendants e)"

definition querySelector :: "xml \<Rightarrow> string \<Rightarrow> xml option" where
  "querySelector e name = (case querySelectorAll e name of [] \<Rightarrow> None | x # _ \<Rightarrow> Some x)"

definition doc_querySelectorAll :: "xml \<Rightarrow> string \<Rightarrow> xml list" where
  "doc_querySelectorAll doc name = filter (\<lambda>x. xml_tag x = name) (doc # descendants doc)"

definition doc_querySelector :: "xml \<Rightarrow> string \<Rightarrow> xml option" where
  "doc_querySelector doc name =
     (case doc_querySelectorAll doc name of [] \<Rightarrow> None | x # _ \<Rightarrow> Some x)"

definition getAttribute :: "xml \<Rightarrow> string \<Rightarrow> string option" where
  "getAttribute e name = map_of (xml_attrs e) name"

text \<open>\<^verbatim>\<open>attr || dflt\<close> on a string that may be \<^verbatim>\<open>null\<close>: the default
  replaces \<^verbatim>\<open>null\<close> and the empty string.\<close>

definition or_default :: "string option \<Rightarrow> string \<Rightarrow> string" where
  "or_default attr dflt = (case attr of None \<Rightarrow> dflt | Some s \<Rightarrow> if s = [] then dflt else s)"

subsection \<open>The store of vertex arrays\<close>

text \<open>
  A vertex is a JavaScript array, and the fields of a triangle hold references to such
  arrays: \<^verbatim>\<open>triangles.push({a: vertices[v1], ...})\<close> stores the array of the vertex
  list itself, not a copy. The store maps an address (an index) to the array's contents;
  a new array is allocated at the end.
\<close>

type_synonym heap = "vec list"

definition alloc :: "heap \<Rightarrow> vec \<Rightarrow> heap \<times> nat" where
  "alloc h v = (h @ [v], length h)"

datatype tri_ref = TriRef (ref_a: nat) (ref_b: nat) (ref_c: nat)

definition applyTransform :: "heap \<Rightarrow> nat \<Rightarrow> jsnum list \<Rightarrow> heap \<times> nat" where
  "applyTransform h p matrix =
     (if length matrix \<noteq> 12 then (h, p)
      else
        (case h ! p of (x, y, z) \<Rightarrow>
           alloc h
             (jadd (jadd (jadd (jmul (matrix ! 0) x) (jmul (matrix ! 1) y)) (jmul (matrix ! 2) z))
                   (matrix ! 3),
              jadd (jadd (jadd (jmul (matrix ! 4) x) (jmul (matrix ! 5) y)) (jmul (matrix ! 6) z))
                   (matrix ! 7),
              jadd (jadd (jadd (jmul (matrix ! 8) x) (jmul (matrix ! 9) y)) (jmul (matrix ! 10) z))
                   (matrix ! 11))))"

subsection \<open>The loops of parse3MF\<close>

text \<open>\<^verbatim>\<open>parseFloat(vertex.getAttribute(k) || '0')\<close>, which the source writes out
  for each of \<^verbatim>\<open>x\<close>, \<^verbatim>\<open>y\<close> and \<^verbatim>\<open>z\<close>.\<close>

definition vertex_coord :: "xml \<Rightarrow> string \<Rightarrow> jsnum" where
  "vertex_coord vertex k = js_parseFloat (or_default (getAttribute vertex k) ''0'')"

definition parseVertex :: "xml \<Rightarrow> vec" where
  "parseVertex vertex =
     (vertex_coord vertex ''x'', vertex_coord vertex ''y'', vertex_coord vertex ''z'')"

fun push_vertices :: "heap \<Rightarrow> nat list \<Rightarrow> xml list \<Rightarrow> heap \<times> nat list" where
  "push_vertices h vertices [] = (h, vertices)"
| "push_vertices h vertices (vertex # rest) =
     (case alloc h (parseVertex vertex) of (h', p) \<Rightarrow> push_vertices h' (vertices @ [p]) rest)"

text \<open>\<^verbatim>\<open>v >= 0 && v < vertices.length\<close>, and the index of a number that passed
  the test (a result of \<^verbatim>\<open>parseInt\<close>, hence an integer).\<close>

definition index_ok :: "jsnum \<Rightarrow> nat \<Rightarrow> bool" where
  "index_ok v n = (jle (Fin 0) v \<and> jless v (Fin (real n)))"

fun index_of :: "jsnum \<Rightarrow> nat" where
  "index_of (Fin x) = nat \<lfloor>x\<rfloor>"
| "index_of _ = 0"

fun push_triangles :: "nat list \<Rightarrow> tri_ref list \<Rightarrow> xml list \<Rightarrow> tri_ref list" where
  "push_triangles vertices triangles [] = triangles"
| "push_triangles vertices triangles (triangle # rest) =
     (let v1 = js_parseInt10 (or_default (getAttribute triangle ''v1'') ''0'');
          v2 = js_parseInt10 (or_default (getAttribute triangle ''v2'') ''0'');
          v3 = js_parseInt10 (or_default (getAttribute triangle ''v3'') ''0'')
      in push_triangles vertices
           (if index_ok v1 (length vertices) \<and> index_ok v2 (length vertices)
               \<and> index_ok v3 (length vertices)
            then triangles @ [TriRef (vertices ! index_of v1) (vertices ! index_of v2)
                                      (vertices ! index_of v3)]
            else triangles)
           rest)"

text \<open>The body of the transform loop: each field is replaced by a reference to the
  new array \<^verbatim>\<open>applyTransform\<close> returns, \<^verbatim>\<open>a\<close> first.\<close>

definition transform_triangle :: "heap \<Rightarrow> jsnum list \<Rightarrow> tri_ref \<Rightarrow> heap \<times> tri_ref" where
  "transform_triangle h matrix t =
     (case applyTransform h (ref_a t) matrix of (h1, a') \<Rightarrow>
      case applyTransform h1 (ref_b t) matrix of (h2, b') \<Rightarrow>
      case applyTransform h2 (ref_c t) matrix of (h3, c') \<Rightarrow>
        (h3, TriRef a' b' c'))"

fun transform_all :: "heap \<Rightarrow> jsnum list \<Rightarrow> tri_ref list \<Rightarrow> heap \<times> tri_ref list" where
  "transform_all h matrix [] = (h, [])"
| "transform_all h matrix (t # ts) =
     (case transform_triangle h matrix t of (h1, t') \<Rightarrow>
      case transform_all h1 matrix ts of (h2, ts') \<Rightarrow> (h2, t' # ts'))"

text \<open>The loop \<^verbatim>\<open>for (let i = objectTriangleStart; i < triangles.length; i++)\<close>
  with \<^verbatim>\<open>objectTriangleStart = triangles.length - triangleElements.length\<close>. When
  the start is negative the first iteration reads \<^verbatim>\<open>triangles[i]\<close> at a negative
  index, which is \<^verbatim>\<open>undefined\<close>, and \<^verbatim>\<open>t.a\<close> raises a
  \<^verbatim>\<open>TypeError\<close>.\<close>

definition transform_from ::
  "heap \<Rightarrow> tri_ref list \<Rightarrow> jsnum list \<Rightarrow> int \<Rightarrow> js_error + (heap \<times> tri_ref list)" where
  "transform_from h triangles matrix objectTriangleStart =
     (if objectTriangleStart < 0 then Inl TypeError
      else
        (case transform_all h matrix (drop (nat objectTriangleStart) triangles) of
           (h', ts') \<Rightarrow> Inr (h', take (nat objectTriangleStart) triangles @ ts')))"

definition parse_matrix :: "string \<Rightarrow> jsnum list" where
  "parse_matrix transform = filter (\<lambda>v. \<not> isNaN v) (map js_parseFloat (js_split_ws transform))"

text \<open>One iteration of the loop over the objects; each \<^verbatim>\<open>continue\<close> leaves the
  triangle list as it was.\<close>

definition process_object ::
  "heap \<times> tri_ref list \<Rightarrow> xml \<Rightarrow> js_error + (heap \<times> tri_ref list)" where
  "process_object st object =
     (case st of (h, triangles) \<Rightarrow>
     (case querySelector object ''mesh'' of
        None \<Rightarrow> Inr (h, triangles)
      | Some mesh \<Rightarrow>
          (case querySelector mesh ''vertices'' of
             None \<Rightarrow> Inr (h, triangles)
           | Some verticesElement \<Rightarrow>
               (case push_vertices h [] (querySelectorAll verticesElement ''vertex'') of
                  (h1, vertices) \<Rightarrow>
                    (case querySelector mesh ''triangles'' of
                       None \<Rightarrow> Inr (h1, triangles)
                     | Some trianglesElement \<Rightarrow>
                         (let triangleElements = querySelectorAll trianglesElement ''triangle'';
                              triangles1 = push_triangles vertices triangles triangleElements
                          in case getAttribute object ''transform'' of
                               None \<Rightarrow> Inr (h1, triangles1)
                             | Some transform \<Rightarrow>
                                 if transform = [] then Inr (h1, triangles1)
                                 else
                                   (let matrixValues = parse_matrix transform
                                    in if length matrixValues = 12
                                       then transform_from h1 triangles1 matrixValues
                                              (int (length triangles1)
                                               - int (length triangleElements))
                                       else Inr (h1, triangles1))))))))"

fun process_objects ::
  "heap \<times> tri_ref list \<Rightarrow> xml list \<Rightarrow> js_error + (heap \<times> tri_ref list)" where
  "process_objects st [] = Inr st"
| "process_objects st (object # rest) =
     (case process_object st object of Inl e \<Rightarrow> Inl e | Inr st' \<Rightarrow> process_objects st' rest)"

text \<open>The table \<^verbatim>\<open>unitScales\<close> and \<^verbatim>\<open>unitScales[unit.toLowerCase()] || 1\<close>.
  The table is an object literal, so the two lower-case keys of
  \<^verbatim>\<open>Object.prototype\<close> read as an object; that value differs from 1 and its product
  with a number is \<^verbatim>\<open>NaN\<close>, which is what \<^verbatim>\<open>NaN\<close> as the scale gives.\<close>

definition unitScales :: "string \<Rightarrow> jsnum option" where
  "unitScales = map_of
     [(''millimeter'', Fin 1), (''micron'', Fin 0.001), (''centimeter'', Fin 10),
      (''inch'', Fin 25.4), (''foot'', Fin 304.8), (''meter'', Fin 1000)]"

definition unitScale_of :: "xml \<Rightarrow> jsnum" where
  "unitScale_of doc =
     (let unit_name =
            or_default (case doc_querySelector doc ''model'' of
                          None \<Rightarrow> None
                        | Some model \<Rightarrow> getAttribute model ''unit'')
                       ''millimeter'';
          k = js_toLowerCase unit_name
      in case unitScales k of
           Some s \<Rightarrow> s
         | None \<Rightarrow> if k = ''constructor'' \<or> k = ''__proto__'' then NaN else Fin 1)"

definition scale_vec :: "jsnum \<Rightarrow> vec \<Rightarrow> vec" where
  "scale_vec s p = (case p of (x, y, z) \<Rightarrow> (jmul x s, jmul y s, jmul z s))"

text \<open>The scaling loop: \<^verbatim>\<open>triangle.a[0] *= unitScale\<close> and so on write into the
  arrays the triangle refers to.\<close>

fun scale_all :: "heap \<Rightarrow> jsnum \<Rightarrow> tri_ref list \<Rightarrow> heap" where
  "scale_all h s [] = h"
| "scale_all h s (t # ts) =
     (let h1 = h[ref_a t := scale_vec s (h ! ref_a t)];
          h2 = h1[ref_b t := scale_vec s (h1 ! ref_b t)];
          h3 = h2[ref_c t := scale_vec s (h2 ! ref_c t)]
      in scale_all h3 s ts)"

definition read_triangle :: "heap \<Rightarrow> tri_ref \<Rightarrow> Triangle" where
  "read_triangle h t = Triangle (h ! ref_a t) (h ! ref_b t) (h ! ref_c t)"

text \<open>\<^verbatim>\<open>parse3MF\<close> from the parsed document on. The result is the list
  \<^verbatim>\<open>triangles\<close> as its reader finds it: each field read through the store.\<close>

definition parse3MF_document :: "xml \<Rightarrow> js_error + Triangle list" where
  "parse3MF_document doc =
     (let unitScale = unitScale_of doc
      in case process_objects ([], []) (doc_querySelectorAll doc ''object'') of
           Inl e \<Rightarrow> Inl e
         | Inr (h, triangles) \<Rightarrow>
             (let h' = (if \<not> jeq unitScale (Fin 1) then scale_all h unitScale triangles else h)
              in Inr (map (read_triangle h') triangles)))"


subsection \<open>From the buffer to the document\<close>

text \<open>
  The libraries and platform classes the parser calls are parameters of the model:
  \<^verbatim>\<open>JSZip.loadAsync\<close> with the reading of an entry (the file entries of the
  archive in the order of \<^verbatim>\<open>Object.keys(zip.files)\<close>, each with its text or the
  error of reading it; directory entries end in a slash and pass none of the name tests),
  \<^verbatim>\<open>DOMParser.parseFromString\<close>, and \<^verbatim>\<open>TextDecoder('utf-8')\<close>.
\<close>

type_synonym byte = "8 word"

record env =
  zip_loadAsync :: "byte list \<Rightarrow> js_error + (string \<times> (js_error + string)) list"
  dom_parseFromString :: "string \<Rightarrow> xml"
  utf8_decode :: "byte list \<Rightarrow> string"

definition isZipFile :: "byte list \<Rightarrow> bool" where
  "isZipFile buffer = (length buffer \<ge> 2 \<and> buffer ! 0 = 0x50 \<and> buffer ! 1 = 0x4B)"

definition extract3MFXML :: "env \<Rightarrow> byte list \<Rightarrow> js_error + string" where
  "extract3MFXML ev buffer =
     (if \<not> isZipFile buffer then Inr (utf8_decode ev buffer)
      else
        (case zip_loadAsync ev buffer of
           Inl e \<Rightarrow> Inl e
         | Inr files \<Rightarrow>
             (case map_of files ''3D/3dmodel.model'' of
                Some r \<Rightarrow> r
              | None \<Rightarrow>
                  (case map_of files ''3dmodel.model'' of
                     Some r \<Rightarrow> r
                   | None \<Rightarrow>
                       (let allFiles = map fst files;
                            modelFiles = filter (\<lambda>name. js_endsWith name ''.model''
                                \<or> (js_endsWith name ''.xml'' \<and> js_includes name ''model'')) allFiles;
                            xmlFiles = filter (\<lambda>name. js_endsWith name ''.xml'') allFiles
                        in case (case modelFiles of [] \<Rightarrow> None | name # _ \<Rightarrow> map_of files name) of
                             Some r \<Rightarrow> r
                           | None \<Rightarrow>
                               (case (case xmlFiles of [] \<Rightarrow> None | name # _ \<Rightarrow> map_of files name) of
                                  Some r \<Rightarrow> r
                                | None \<Rightarrow> Inl (Error ''No model file found in 3MF archive'')))))))"

definition parse3MF :: "env \<Rightarrow> byte list \<Rightarrow> js_error + Triangle list" where
  "parse3MF ev buffer =
     (case extract3MFXML ev buffer of
        Inl e \<Rightarrow> Inl e
      | Inr xmlText \<Rightarrow> parse3MF_document (dom_parseFromString ev xmlText))"

section \<open>The STL parsers (utils/stlParser.ts)\<close>

subsection \<open>The text variant\<close>

text \<open>The state of the loop over the lines: the triangles emitted so far, the pending
  vertices \<^verbatim>\<open>currentTriangle.a\<close>, \<^verbatim>\<open>.b\<close>, \<^verbatim>\<open>.c\<close> and
  \<^verbatim>\<open>vertexIndex\<close>.\<close>

record ascii_state =
  st_triangles :: "Triangle list"
  cur_a :: "vec option"
  cur_b :: "vec option"
  cur_c :: "vec option"
  vertexIndex :: nat

definition ascii_init :: ascii_state where
  "ascii_init = \<lparr>st_triangles = [], cur_a = None, cur_b = None, cur_c = None, vertexIndex = 0\<rparr>"

definition ascii_reset :: "ascii_state \<Rightarrow> ascii_state" where
  "ascii_reset st = st\<lparr>cur_a := None, cur_b := None, cur_c := None, vertexIndex := 0\<rparr>"

definition ascii_vertex :: "ascii_state \<Rightarrow> vec \<Rightarrow> ascii_state" where
  "ascii_vertex st v =
     (let st1 = (if vertexIndex st = 0 then st\<lparr>cur_a := Some v\<rparr>
                 else if vertexIndex st = 1 then st\<lparr>cur_b := Some v\<rparr>
                 else if vertexIndex st = 2 then st\<lparr>cur_c := Some v\<rparr>
                 else st);
          st2 = st1\<lparr>vertexIndex := vertexIndex st1 + 1\<rparr>
      in case (cur_a st2, cur_b st2, cur_c st2) of
           (Some pa, Some pb, Some pc) \<Rightarrow>
             if vertexIndex st2 = 3
             then ascii_reset (st2\<lparr>st_triangles := st_triangles st2 @ [Triangle pa pb pc]\<rparr>)
             else st2
         | _ \<Rightarrow> st2)"

definition ascii_line :: "ascii_state \<Rightarrow> string \<Rightarrow> ascii_state" where
  "ascii_line st line =
     (let trimmed = js_trim line
      in if js_startsWith trimmed ''vertex'' then
           (let parts = js_split_ws trimmed
            in if length parts \<ge> 4 then
                 (let x = js_parseFloat (parts ! 1);
                      y = js_parseFloat (parts ! 2);
                      z = js_parseFloat (parts ! 3)
                  in if \<not> isNaN x \<and> \<not> isNaN y \<and> \<not> isNaN z then ascii_vertex st (x, y, z)
                     else st)
               else st)
         else if js_startsWith trimmed ''endfacet'' then ascii_reset st
         else st)"

definition parseASCIISTL :: "string \<Rightarrow> Triangle list" where
  "parseASCIISTL content =
     st_triangles (foldl ascii_line ascii_init (js_split (CHR 0x0A) content))"

subsection \<open>The binary variant\<close>

text \<open>\<^verbatim>\<open>DataView.getUint32\<close> and \<^verbatim>\<open>DataView.getFloat32\<close>, little-endian:
  a read that does not fit in the buffer raises a \<^verbatim>\<open>RangeError\<close>. A 32-bit
  float converts to a number without rounding.\<close>

definition getUint32 :: "byte list \<Rightarrow> nat \<Rightarrow> js_error + nat" where
  "getUint32 buffer off =
     (if off + 4 \<le> length buffer
      then Inr (unat (buffer ! off) + 2 ^ 8 * unat (buffer ! (off + 1))
                + 2 ^ 16 * unat (buffer ! (off + 2)) + 2 ^ 24 * unat (buffer ! (off + 3)))
      else Inl RangeError)"

definition float32_of_bits :: "nat \<Rightarrow> jsnum" where
  "float32_of_bits w =
     (let negative = (w div 2 ^ 31 = 1);
          e = (w div 2 ^ 23) mod 2 ^ 8;
          m = w mod 2 ^ 23;
          magnitude = (if e = 0 then real m / 2 ^ 149
                       else if e < 150 then real (2 ^ 23 + m) / 2 ^ (150 - e)
                       else real (2 ^ 23 + m) * 2 ^ (e - 150))
      in if e = 255 then (if m = 0 then (if negative then NInf else PInf) else NaN)
         else Fin (if negative then - magnitude else magnitude))"

definition getFloat32 :: "byte list \<Rightarrow> nat \<Rightarrow> js_error + jsnum" where
  "getFloat32 buffer off =
     (case getUint32 buffer off of Inl e \<Rightarrow> Inl e | Inr w \<Rightarrow> Inr (float32_of_bits w))"

text \<open>The three reads of one vertex, in the order of the source.\<close>

definition read_vertex :: "byte list \<Rightarrow> nat \<Rightarrow> js_error + vec" where
  "read_vertex buffer off =
     (case getFloat32 buffer off of
        Inl e \<Rightarrow> Inl e
      | Inr x \<Rightarrow>
          (case getFloat32 buffer (off + 4) of
             Inl e \<Rightarrow> Inl e
           | Inr y \<Rightarrow>
               (case getFloat32 buffer (off + 8) of
                  Inl e \<Rightarrow> Inl e
                | Inr z \<Rightarrow> Inr (x, y, z))))"

text \<open>The record loop: \<open>n\<close> is the number of records still to read, \<open>off\<close> the
  offset of the next one.\<close>

fun read_records :: "byte list \<Rightarrow> nat \<Rightarrow> nat \<Rightarrow> Triangle list \<Rightarrow> js_error + Triangle list" where
  "read_records buffer 0 off triangles = Inr triangles"
| "read_records buffer (Suc n) off triangles =
     (case read_vertex buffer (off + 12) of
        Inl e \<Rightarrow> Inl e
      | Inr pa \<Rightarrow>
          (case read_vertex buffer (off + 24) of
             Inl e \<Rightarrow> Inl e
           | Inr pb \<Rightarrow>
               (case read_vertex buffer (off + 36) of
                  Inl e \<Rightarrow> Inl e
                | Inr pc \<Rightarrow>
                    read_records buffer n (off + 50) (triangles @ [Triangle pa pb pc]))))"

definition parseBinarySTL :: "byte list \<Rightarrow> js_error + Triangle list" where
  "parseBinarySTL buffer =
     (case getUint32 buffer 80 of
        Inl e \<Rightarrow> Inl e
      | Inr numTriangles \<Rightarrow> read_records buffer numTriangles 84 [])"

subsection \<open>The format sniffer\<close>

text \<open>\<^verbatim>\<open>TextDecoder('ascii')\<close>: each byte becomes one character. (The label names
  windows-1252, which sends the bytes 0x80 to 0x9F to code units above 255; none of them
  is white space, a line feed, NUL or a letter that lower-cases into ASCII, so keeping the
  byte changes none of the tests made on the text.)\<close>

definition ascii_decode :: "byte list \<Rightarrow> string" where
  "ascii_decode buffer = map (\<lambda>b. char_of (unat b)) buffer"

definition isASCIISTL :: "byte list \<Rightarrow> bool" where
  "isASCIISTL buffer =
     (let text_head = ascii_decode (take (min 100 (length buffer)) buffer)
      in js_startsWith (js_toLowerCase (js_trim text_head)) ''solid''
         \<and> \<not> CHR 0x00 \<in> set text_head
         \<and> CHR 0x0A \<in> set text_head)"

section \<open>The batch boundary (components/FileDropZone.tsx)\<close>

text \<open>A \<^verbatim>\<open>File\<close> has a name and bytes that \<^verbatim>\<open>file.arrayBuffer()\<close> delivers or
  fails to deliver.\<close>

datatype File = File (file_name: string) (file_arrayBuffer: "js_error + byte list")

record FileData =
  filename :: string
  surfaceArea_dm2 :: jsnum

text \<open>The body of the \<^verbatim>\<open>try\<close> block of \<^verbatim>\<open>processFile\<close>: every
  \<^verbatim>\<open>throw\<close> and every rejected promise is an \<open>Inl\<close>.\<close>

definition processFile_try :: "env \<Rightarrow> string \<Rightarrow> File \<Rightarrow> js_error + FileData" where
  "processFile_try ev u file =
     (case file_arrayBuffer file of
        Inl e \<Rightarrow> Inl e
      | Inr arrayBuffer \<Rightarrow>
          (case (if js_endsWith (js_toLowerCase (file_name file)) ''.stl'' then
                   (if isASCIISTL arrayBuffer
                    then Inr (parseASCIISTL (ascii_decode arrayBuffer), u)
                    else (case parseBinarySTL arrayBuffer of
                            Inl e \<Rightarrow> Inl e
                          | Inr ts \<Rightarrow> Inr (ts, u)))
                 else if js_endsWith (js_toLowerCase (file_name file)) ''.3mf'' then
                   (case parse3MF ev arrayBuffer of
                      Inl e \<Rightarrow> Inl e
                    | Inr ts \<Rightarrow> Inr (ts, ''mm''))
                 else Inl (Error ''Unsupported file type''))
           of
             Inl e \<Rightarrow> Inl e
           | Inr (triangles, useUnit) \<Rightarrow>
               if length triangles = 0 then Inl (Error ''No triangles found in file'')
               else Inr \<lparr>filename = file_name file,
                         surfaceArea_dm2 = calculateSurfaceArea triangles useUnit\<rparr>))"

text \<open>The \<^verbatim>\<open>catch\<close> logs the error and returns \<^verbatim>\<open>null\<close>.\<close>

definition processFile :: "env \<Rightarrow> string \<Rightarrow> File \<Rightarrow> FileData option" where
  "processFile ev u file =
     (case processFile_try ev u file of Inl e \<Rightarrow> None | Inr r \<Rightarrow> Some r)"

text \<open>\<^verbatim>\<open>handleFiles\<close>: the list passed to \<^verbatim>\<open>onFilesLoaded\<close>, or \<open>None\<close>
  when no file has a supported extension, where the function shows an alert and returns
  without calling \<^verbatim>\<open>onFilesLoaded\<close>. \<^verbatim>\<open>Promise.all\<close> keeps the order of the
  files, and no promise of \<^verbatim>\<open>processFile\<close> is rejected, so the outer
  \<^verbatim>\<open>catch\<close> has no branch here.\<close>

definition handleFiles :: "env \<Rightarrow> string \<Rightarrow> File list \<Rightarrow> FileData list option" where
  "handleFiles ev u files =
     (let validFiles = filter (\<lambda>f. js_endsWith (js_toLowerCase (file_name f)) ''.stl''
                                   \<or> js_endsWith (js_toLowerCase (file_name f)) ''.3mf'') files
      in if length validFiles = 0 then None
         else
           (let results = map (processFile ev u) validFiles;
                validResults = map the (filter (\<lambda>r. r \<noteq> None) results)
            in Some validResults))"

text \<open>The state of the application after the batch: \<^verbatim>\<open>handleFilesLoaded\<close>
  appends the delivered list to the files it holds (App.tsx), and a batch that calls
  nothing leaves them as they were.\<close>

definition files_after :: "FileData list \<Rightarrow> FileData list option \<Rightarrow> FileData list" where
  "files_after prevFiles delivered =
     (case delivered of None \<Rightarrow> prevFiles | Some newFiles \<Rightarrow> prevFiles @ newFiles)"


section \<open>Sample inputs\<close>

text \<open>Model files as a slicer writes them: a \<^verbatim>\<open>model\<close> element with its
  \<^verbatim>\<open>resources\<close>, whose objects hold a mesh of \<^verbatim>\<open>vertices\<close> and
  \<^verbatim>\<open>triangles\<close>.\<close>

definition vertex_elem :: "string \<Rightarrow> string \<Rightarrow> string \<Rightarrow> xml" where
  "vertex_elem x y z = Elem ''vertex'' [(''x'', x), (''y'', y), (''z'', z)] []"

definition triangle_elem :: "string \<Rightarrow> string \<Rightarrow> string \<Rightarrow> xml" where
  "triangle_elem v1 v2 v3 = Elem ''triangle'' [(''v1'', v1), (''v2'', v2), (''v3'', v3)] []"

definition object_elem :: "(string \<times> string) list \<Rightarrow> xml list \<Rightarrow> xml list \<Rightarrow> xml" where
  "object_elem as vs ts =
     Elem ''object'' as [Elem ''mesh'' [] [Elem ''vertices'' [] vs, Elem ''triangles'' [] ts]]"

definition model_doc :: "(string \<times> string) list \<Rightarrow> xml list \<Rightarrow> xml" where
  "model_doc as objects = Elem ''model'' as [Elem ''resources'' [] objects]"

text \<open>A mesh in centimetres whose two triangles share the vertices 0 and 1, as the
  triangles of any closed surface do; no transform.\<close>

definition shared_vertex_doc :: xml where
  "shared_vertex_doc =
     model_doc [(''unit'', ''centimeter'')]
       [object_elem [(''id'', ''1'')]
          [vertex_elem ''1'' ''0'' ''0'', vertex_elem ''0'' ''1'' ''0'',
           vertex_elem ''0'' ''0'' ''1'', vertex_elem ''0'' ''0'' ''0'']
          [triangle_elem ''0'' ''1'' ''2'', triangle_elem ''0'' ''1'' ''3'']]"

text \<open>The same mesh with a transform on the object (a translation by 5 along z).\<close>

definition shared_vertex_transformed_doc :: xml where
  "shared_vertex_transformed_doc =
     model_doc [(''unit'', ''centimeter'')]
       [object_elem [(''id'', ''1''), (''transform'', ''1 0 0 0 0 1 0 0 0 0 1 5'')]
          [vertex_elem ''1'' ''0'' ''0'', vertex_elem ''0'' ''1'' ''0'',
           vertex_elem ''0'' ''0'' ''1'', vertex_elem ''0'' ''0'' ''0'']
          [triangle_elem ''0'' ''1'' ''2'', triangle_elem ''0'' ''1'' ''3'']]"

text \<open>Two objects in millimetres. The first has one triangle and no transform. The
  second has the translation by 5 along z and two triangle elements, of which the second
  refers to the vertex 7 of a list of three and is skipped.\<close>

definition skipped_triangle_doc :: xml where
  "skipped_triangle_doc =
     model_doc []
       [object_elem [(''id'', ''1'')]
          [vertex_elem ''1'' ''0'' ''0'', vertex_elem ''0'' ''1'' ''0'', vertex_elem ''0'' ''0'' ''0'']
          [triangle_elem ''0'' ''1'' ''2''],
        object_elem [(''id'', ''2''), (''transform'', ''1 0 0 0 0 1 0 0 0 0 1 5'')]
          [vertex_elem ''2'' ''0'' ''0'', vertex_elem ''0'' ''2'' ''0'', vertex_elem ''0'' ''0'' ''0'']
          [triangle_elem ''0'' ''1'' ''2'', triangle_elem ''0'' ''1'' ''7'']]"

text \<open>The second object of that document alone.\<close>

definition skipped_triangle_single_doc :: xml where
  "skipped_triangle_single_doc =
     model_doc []
       [object_elem [(''id'', ''2''), (''transform'', ''1 0 0 0 0 1 0 0 0 0 1 5'')]
          [vertex_elem ''2'' ''0'' ''0'', vertex_elem ''0'' ''2'' ''0'', vertex_elem ''0'' ''0'' ''0'']
          [triangle_elem ''0'' ''1'' ''2'', triangle_elem ''0'' ''1'' ''7'']]"

text \<open>A mesh whose first vertex has an \<^verbatim>\<open>x\<close> attribute that is not a number.\<close>

definition unparsable_vertex_doc :: xml where
  "unparsable_vertex_doc =
     model_doc []
       [object_elem [(''id'', ''1'')]
          [vertex_elem ''abc'' ''0'' ''0'', vertex_elem ''0'' ''1'' ''0'', vertex_elem ''0'' ''0'' ''1'']
          [triangle_elem ''0'' ''1'' ''2'']]"

text \<open>STL files: a text file is given by its lines, each ended by a line feed, and a
  file holds the bytes of its text.\<close>

definition unlines :: "string list \<Rightarrow> string" where
  "unlines ls = concat (map (\<lambda>l. l @ [CHR 0x0A]) ls)"

definition bytes_of :: "string \<Rightarrow> byte list" where
  "bytes_of s = map (\<lambda>ch. of_nat (of_char ch)) s"

definition header_only_stl :: string where
  "header_only_stl = unlines [''solid empty'', ''endsolid empty'']"

definition one_facet_stl :: string where
  "one_facet_stl =
     unlines [''solid t'', '' facet normal 0 0 1'', ''  outer loop'',
              ''   vertex 0 0 0'', ''   vertex 1 0 0'', ''   vertex 0 1 0'',
              ''  endloop'', '' endfacet'', ''endsolid t'']"

text \<open>A batch of four files: one of an unsupported type, a binary STL cut short, a
  binary STL with a count of zero, and the text STL with one facet (its extension in
  capitals).\<close>

definition sample_batch :: "File list" where
  "sample_batch =
     [File ''notes.txt'' (Inr (bytes_of ''hello'')),
      File ''short.stl'' (Inr (replicate 80 0)),
      File ''empty.stl'' (Inr (replicate 84 0)),
      File ''facet.STL'' (Inr (bytes_of one_facet_stl))]"

chapter \<open>Properties\<close>

section \<open>Plating formulas\<close>




section \<open>Unit conversion\<close>

lemma conversions_cases:
  "conversions u = (if u = ''mm'' then Some (Fin 1) else if u = ''cm'' then Some (Fin 10)
                    else if u = ''inch'' then Some (Fin 25.4) else None)"
  by (simp add: conversions_def)




section \<open>Surface area\<close>








section \<open>The duration codec\<close>





lemma digit_not_ws: "is_digit ch \<Longrightarrow> \<not> is_ws ch"
  by (auto simp: is_digit_def is_ws_def)

lemma digit_chars: "is_digit ch \<Longrightarrow> ch \<noteq> CHR ''+'' \<and> ch \<noteq> CHR ''-'' \<and> ch \<noteq> CHR ''.''
   \<and> ch \<noteq> CHR ''I'' \<and> ch \<noteq> CHR ''x'' \<and> ch \<noteq> CHR ''X'' \<and> ch \<noteq> CHR ''o'' \<and> ch \<noteq> CHR ''O''
   \<and> ch \<noteq> CHR ''b'' \<and> ch \<noteq> CHR ''B'' \<and> ch \<noteq> CHR '':'' \<and> ch \<noteq> CHR ''e'' \<and> ch \<noteq> CHR ''E''"
  by (auto simp: is_digit_def)

lemma dropWhile_none: "\<forall>x \<in> set xs. \<not> P x \<Longrightarrow> dropWhile P xs = xs"
  by (cases xs) auto



lemma takeWhile_digits: "\<forall>ch \<in> set ds. is_digit ch \<Longrightarrow> takeWhile is_digit ds = ds"
  by (simp add: takeWhile_eq_all_conv)

lemma dropWhile_digits: "\<forall>ch \<in> set ds. is_digit ch \<Longrightarrow> dropWhile is_digit ds = []"
  by simp

lemma not_prefixed:
  assumes "\<forall>ch \<in> set ds. is_digit ch" and "\<not> is_digit c2"
  shows "\<not> js_startsWith ds (c1 # c2 # p)"
proof
  assume "js_startsWith ds (c1 # c2 # p)"
  then have "take (Suc (Suc (length p))) ds = c1 # c2 # p" by (simp add: js_startsWith_def)
  then have "c2 \<in> set (take (Suc (Suc (length p))) ds)" by simp
  then have "c2 \<in> set ds" by (meson in_set_takeD)
  with assms show False by blast
qed

lemma scan_unsigned_digits:
  assumes "\<forall>ch \<in> set ds. is_digit ch" and "ds \<noteq> []"
  shows "scan_unsigned_decimal ds = Some (real (dec_val ds), [])"
  using assms
  by (simp add: scan_unsigned_decimal_def takeWhile_digits dropWhile_digits scan_exponent_def
      dec_val_def)






































section \<open>The 3MF parser\<close>

lemma js_parseFloat_zero: "js_parseFloat ''0'' = Fin 0"
  by code_simp

lemma js_parseFloat_digits:
  assumes d: "\<forall>ch \<in> set s. is_digit ch" and ne: "s \<noteq> []"
  shows "js_parseFloat s = Fin (real (dec_val s))"
proof -
  have h: "is_digit (hd s)" using d ne by (cases s) auto
  have "\<not> js_startsWith s ''Infinity''"
    using not_prefixed [OF d, of "CHR ''n''"] by (simp add: is_digit_def)
  then have "scan_str_decimal s = Some (Fin (real (dec_val s)), [])"
    using h ne digit_chars [OF h] by (simp add: scan_str_decimal_def scan_unsigned_digits [OF d ne])
  moreover have "js_trimStart s = s"
    using d by (simp add: js_trimStart_def dropWhile_none digit_not_ws)
  ultimately show ?thesis by (simp add: js_parseFloat_def)
qed

lemma js_parseFloat_NaN:
  assumes ne: "s \<noteq> []" and w: "\<not> is_ws (hd s)" and d: "\<not> is_digit (hd s)"
    and c: "hd s \<notin> set ''+-.I''"
  shows "js_parseFloat s = NaN"
proof -
  obtain ch r where s: "s = ch # r" using ne by (cases s) auto
  have t: "js_trimStart s = s" using w by (simp add: js_trimStart_def dropWhile_eq_self_iff)
  have i: "\<not> js_startsWith s ''Infinity''" using c by (auto simp: js_startsWith_def s)
  have u: "scan_unsigned_decimal s = None"
    using d c by (simp add: scan_unsigned_decimal_def s)
  have "scan_str_decimal s = None"
    using c i u by (simp add: scan_str_decimal_def s)
  then show ?thesis by (simp add: js_parseFloat_def t)
qed

text \<open>
  Claim C8, as amended. Each coordinate of a vertex element is \<^verbatim>\<open>parseFloat\<close> of
  the attribute of that name. It is 0 when the attribute is absent or empty, and the
  number written when the attribute is a string of digits. An attribute that is present
  and does not start (after white space) with a digit, a sign, a dot or the letter of
  \<^verbatim>\<open>Infinity\<close> reads as \<^verbatim>\<open>NaN\<close>, not as 0.
\<close>

theorem vertex_coordinates:
  "parseVertex vertex = (vertex_coord vertex ''x'', vertex_coord vertex ''y'', vertex_coord vertex ''z'')
   \<and> (getAttribute vertex k = None \<or> getAttribute vertex k = Some [] \<longrightarrow> vertex_coord vertex k = Fin 0)
   \<and> (getAttribute vertex k = Some s \<and> s \<noteq> [] \<longrightarrow> vertex_coord vertex k = js_parseFloat s)
   \<and> ((\<forall>ch \<in> set s. is_digit ch) \<and> s \<noteq> [] \<longrightarrow> js_parseFloat s = Fin (real (dec_val s)))
   \<and> (s \<noteq> [] \<and> \<not> is_ws (hd s) \<and> \<not> is_digit (hd s) \<and> hd s \<notin> set ''+-.I'' \<longrightarrow> js_parseFloat s = NaN)"
  using js_parseFloat_digits [of s] js_parseFloat_NaN [of s]
  by (auto simp: parseVertex_def vertex_coord_def or_default_def js_parseFloat_zero)

text \<open>A vertex with \<^verbatim>\<open>x="12"\<close>, \<^verbatim>\<open>y="abc"\<close> and an empty \<^verbatim>\<open>z\<close>, and a
  vertex with no attribute.\<close>

theorem vertex_coordinates_witness:
  "parseVertex (Elem ''vertex'' [(''x'', ''12''), (''y'', ''abc''), (''z'', '''')] []) = (Fin 12, NaN, Fin 0)
   \<and> vertex_coord (Elem ''vertex'' [] []) ''x'' = Fin 0"
proof -
  let ?v = "Elem ''vertex'' [(''x'', ''12''), (''y'', ''abc''), (''z'', '''')] []"
  have x: "vertex_coord ?v ''x'' = Fin 12"
    using vertex_coordinates [of ?v "''x''" "''12''"]
    by (simp add: getAttribute_def is_digit_def dec_val_def digit_val_def)
  have y: "vertex_coord ?v ''y'' = NaN"
    using vertex_coordinates [of ?v "''y''" "''abc''"]
    by (simp add: getAttribute_def is_digit_def is_ws_def)
  have z: "vertex_coord ?v ''z'' = Fin 0"
    using vertex_coordinates [of ?v "''z''" "''''"]
    by (simp add: getAttribute_def)
  have a: "vertex_coord (Elem ''vertex'' [] []) ''x'' = Fin 0"
    using vertex_coordinates [of "Elem ''vertex'' [] []" "''x''" "''''"]
    by (simp add: getAttribute_def)
  have "parseVertex ?v = (vertex_coord ?v ''x'', vertex_coord ?v ''y'', vertex_coord ?v ''z'')"
    using vertex_coordinates [of ?v] by blast
  with x y z a show ?thesis by simp
qed

text \<open>Claim C8 as stated fails: the vertex with \<^verbatim>\<open>x="abc"\<close> gets the coordinate
  \<^verbatim>\<open>NaN\<close>, and the triangle emitted for it carries that \<^verbatim>\<open>NaN\<close>.\<close>

theorem unparsable_vertex_counterexample:
  "parse3MF_document unparsable_vertex_doc =
     Inr [Triangle (NaN, Fin 0, Fin 0) (Fin 0, Fin 1, Fin 0) (Fin 0, Fin 0, Fin 1)]
   \<and> vertex_coord (vertex_elem ''abc'' ''0'' ''0'') ''x'' \<noteq> Fin 0"
  by code_simp

text \<open>
  Claim C1 says that every emitted coordinate is the decoded (and transformed) one times
  the unit scale, once, also for a vertex that several triangles share. In a mesh without
  transform the triangles hold references to the arrays of the vertex list, and the scaling
  loop multiplies an array once for each reference to it: with the scale 10, the vertices 0
  and 1 of the sample mesh, used by both triangles, come out as 100 where the claim has 10,
  while the vertex 2, used once, comes out as 10. The same mesh with a transform is scaled
  once, because \<^verbatim>\<open>applyTransform\<close> gives every reference an array of its own.
\<close>

theorem shared_vertex_scaled_per_reference:
  "parse3MF_document shared_vertex_doc =
     Inr [Triangle (Fin 100, Fin 0, Fin 0) (Fin 0, Fin 100, Fin 0) (Fin 0, Fin 0, Fin 10),
          Triangle (Fin 100, Fin 0, Fin 0) (Fin 0, Fin 100, Fin 0) (Fin 0, Fin 0, Fin 0)]
   \<and> parse3MF_document shared_vertex_transformed_doc =
     Inr [Triangle (Fin 10, Fin 0, Fin 50) (Fin 0, Fin 10, Fin 50) (Fin 0, Fin 0, Fin 60),
          Triangle (Fin 10, Fin 0, Fin 50) (Fin 0, Fin 10, Fin 50) (Fin 0, Fin 0, Fin 50)]"
  by code_simp

text \<open>
  Claim C2 says that the transform of an object reaches the triangles of that object and
  no other, also when triangle elements of the object were skipped. The start of the
  transformed range is computed from the number of triangle elements, not from the number
  of triangles pushed: with one element skipped, the translation by 5 along z of the
  second object is applied to the triangle of the first as well, and when the object is
  the first of the file the start is negative and the parse ends in a
  \<^verbatim>\<open>TypeError\<close>.
\<close>

theorem transform_reaches_other_object:
  "parse3MF_document skipped_triangle_doc =
     Inr [Triangle (Fin 1, Fin 0, Fin 5) (Fin 0, Fin 1, Fin 5) (Fin 0, Fin 0, Fin 5),
          Triangle (Fin 2, Fin 0, Fin 5) (Fin 0, Fin 2, Fin 5) (Fin 0, Fin 0, Fin 5)]
   \<and> parse3MF_document skipped_triangle_single_doc = Inl TypeError"
  by code_simp

section \<open>The STL parsers and the batch boundary\<close>

lemma ascii_line_no_vertex:
  assumes "\<not> js_startsWith (js_trim line) ''vertex''"
  shows "ascii_line ascii_init line = ascii_init"
  using assms by (simp add: ascii_line_def ascii_reset_def ascii_init_def)

lemma foldl_ascii_no_vertex:
  assumes "\<forall>line \<in> set ls. \<not> js_startsWith (js_trim line) ''vertex''"
  shows "foldl ascii_line ascii_init ls = ascii_init"
  using assms by (induction ls) (simp_all add: ascii_line_no_vertex)

lemma parseASCIISTL_no_vertex:
  assumes "\<forall>line \<in> set (js_split (CHR 0x0A) content). \<not> js_startsWith (js_trim line) ''vertex''"
  shows "parseASCIISTL content = []"
  using foldl_ascii_no_vertex [OF assms] by (simp add: parseASCIISTL_def ascii_init_def)

lemma parseBinarySTL_short:
  assumes "length buffer < 84"
  shows "parseBinarySTL buffer = Inl RangeError"
  using assms by (simp add: parseBinarySTL_def getUint32_def)

lemma parseBinarySTL_zero:
  assumes "84 \<le> length buffer"
    and "buffer ! 80 = 0" "buffer ! 81 = 0" "buffer ! 82 = 0" "buffer ! 83 = 0"
  shows "parseBinarySTL buffer = Inr []"
  using assms by (simp add: parseBinarySTL_def getUint32_def)

lemma processFile_stl_empty:
  assumes "file_arrayBuffer file = Inr buffer"
    and "js_endsWith (js_toLowerCase (file_name file)) ''.stl''"
    and "if isASCIISTL buffer then parseASCIISTL (ascii_decode buffer) = []
         else parseBinarySTL buffer = Inr [] \<or> (\<exists>e. parseBinarySTL buffer = Inl e)"
  shows "processFile ev u file = None"
  using assms by (auto simp: processFile_def processFile_try_def split: if_splits)

lemma processFile_unsupported:
  assumes "\<not> js_endsWith (js_toLowerCase (file_name file)) ''.stl''"
    and "\<not> js_endsWith (js_toLowerCase (file_name file)) ''.3mf''"
  shows "processFile ev u file = None"
  using assms by (simp add: processFile_def processFile_try_def split: sum.splits)

lemma map_filter_conv: "map the (filter (\<lambda>r. r \<noteq> None) (map f xs)) = List.map_filter f xs"
  by (induction xs) (auto simp: List.map_filter_simps split: option.splits)

lemma map_filter_valid:
  assumes "\<And>x. \<not> P x \<Longrightarrow> f x = None"
  shows "List.map_filter f (filter P xs) = List.map_filter f xs"
  using assms by (induction xs) (auto simp: List.map_filter_simps split: option.splits)

lemma handleFiles_delivers:
  "handleFiles ev u files =
     (if \<exists>f \<in> set files. js_endsWith (js_toLowerCase (file_name f)) ''.stl''
                          \<or> js_endsWith (js_toLowerCase (file_name f)) ''.3mf''
      then Some (List.map_filter (processFile ev u) files) else None)"
proof -
  let ?P = "\<lambda>f. js_endsWith (js_toLowerCase (file_name f)) ''.stl''
                 \<or> js_endsWith (js_toLowerCase (file_name f)) ''.3mf''"
  have "List.map_filter (processFile ev u) (filter ?P files) = List.map_filter (processFile ev u) files"
    by (rule map_filter_valid) (simp add: processFile_unsupported)
  moreover have "(filter ?P files = []) = (\<not> (\<exists>f \<in> set files. ?P f))"
    by (simp add: filter_empty_conv)
  moreover have "handleFiles ev u files =
      (if filter ?P files = [] then None
       else Some (List.map_filter (processFile ev u) (filter ?P files)))"
    unfolding handleFiles_def Let_def map_filter_conv by simp
  ultimately show ?thesis by simp
qed

lemma map_filter_none: "(\<forall>x \<in> set xs. f x = None) \<Longrightarrow> List.map_filter f xs = []"
  by (induction xs) (simp_all add: List.map_filter_simps)

text \<open>
  Claim C4, as amended. The text parser returns no triangle for the empty text and for a
  text without any vertex line (a header alone). The binary parser returns no triangle for
  a buffer of 84 bytes or more whose count is zero; for a buffer shorter than 84 bytes, the
  empty one and a bare 80-byte header included, it does not return a list: the read of the
  count raises a \<^verbatim>\<open>RangeError\<close>. The caller turns a list without triangles and
  a raised error alike into the failure of that file.
\<close>

theorem stl_no_triangles:
  "parseASCIISTL [] = []
   \<and> ((\<forall>line \<in> set (js_split (CHR 0x0A) content). \<not> js_startsWith (js_trim line) ''vertex'')
        \<longrightarrow> parseASCIISTL content = [])
   \<and> (length buffer < 84 \<longrightarrow> parseBinarySTL buffer = Inl RangeError)
   \<and> (84 \<le> length buffer \<and> buffer ! 80 = 0 \<and> buffer ! 81 = 0 \<and> buffer ! 82 = 0 \<and> buffer ! 83 = 0
        \<longrightarrow> parseBinarySTL buffer = Inr [])
   \<and> (file_arrayBuffer file = Inr bytes \<and> js_endsWith (js_toLowerCase (file_name file)) ''.stl''
        \<and> (if isASCIISTL bytes then parseASCIISTL (ascii_decode bytes) = []
            else parseBinarySTL bytes = Inr [] \<or> (\<exists>e. parseBinarySTL bytes = Inl e))
        \<longrightarrow> processFile ev u file = None)"
proof -
  have "parseASCIISTL [] = []"
    by (simp add: parseASCIISTL_def ascii_init_def ascii_line_def js_trim_def js_startsWith_def)
  then show ?thesis
    using parseASCIISTL_no_vertex [of content] parseBinarySTL_short [of buffer]
      parseBinarySTL_zero [of buffer] processFile_stl_empty [of "file" bytes ev u]
    by blast
qed

text \<open>The header-only text, the empty buffer, the buffer of 84 zero bytes, and the three
  as files.\<close>

theorem stl_no_triangles_witness:
  "parseASCIISTL header_only_stl = []
   \<and> parseBinarySTL [] = Inl RangeError
   \<and> parseBinarySTL (replicate 84 0) = Inr []
   \<and> (\<forall>ev u. processFile ev u (File ''a.stl'' (Inr (bytes_of header_only_stl))) = None
            \<and> processFile ev u (File ''b.stl'' (Inr [])) = None
            \<and> processFile ev u (File ''c.stl'' (Inr (replicate 84 0))) = None)"
proof -
  have h: "\<forall>line \<in> set (js_split (CHR 0x0A) header_only_stl). \<not> js_startsWith (js_trim line) ''vertex''"
    by code_simp
  have a: "parseASCIISTL header_only_stl = []"
    using stl_no_triangles [of header_only_stl] h by blast
  have b: "parseBinarySTL [] = Inl RangeError"
    using stl_no_triangles [of _ "[]"] by simp
  have z: "parseBinarySTL (replicate 84 0) = Inr []"
    using stl_no_triangles [of _ "replicate 84 0"] by simp
  have ia: "isASCIISTL (bytes_of header_only_stl)" by code_simp
  have da: "ascii_decode (bytes_of header_only_stl) = header_only_stl" by code_simp
  have ib: "\<not> isASCIISTL []" by code_simp
  have ic: "\<not> isASCIISTL (replicate 84 0)" by code_simp
  have e: "js_endsWith (js_toLowerCase ''a.stl'') ''.stl''" "js_endsWith (js_toLowerCase ''b.stl'') ''.stl''"
    "js_endsWith (js_toLowerCase ''c.stl'') ''.stl''"
    by code_simp+
  have "processFile ev u (File ''a.stl'' (Inr (bytes_of header_only_stl))) = None
      \<and> processFile ev u (File ''b.stl'' (Inr [])) = None
      \<and> processFile ev u (File ''c.stl'' (Inr (replicate 84 0))) = None" for ev u
    using stl_no_triangles [of _ _ "File ''a.stl'' (Inr (bytes_of header_only_stl))"
            "bytes_of header_only_stl" ev u]
      stl_no_triangles [of _ _ "File ''b.stl'' (Inr [])" "[]" ev u]
      stl_no_triangles [of _ _ "File ''c.stl'' (Inr (replicate 84 0))" "replicate 84 0" ev u]
      a b z ia da ib ic e
    by simp
  with a b z show ?thesis by blast
qed

text \<open>Claim C4 as stated fails: on the empty buffer, and on a header of 80 bytes with
  nothing after it, the binary parser raises an error instead of returning the empty
  list.\<close>

theorem binary_empty_buffer_counterexample:
  "parseBinarySTL [] = Inl RangeError \<and> parseBinarySTL [] \<noteq> Inr []
   \<and> parseBinarySTL (replicate 80 0) = Inl RangeError"
  by (simp add: parseBinarySTL_def getUint32_def)

text \<open>
  Claim C9. Whatever the batch, the files the application holds after it are the ones it
  held before followed by the results of the files that succeed, in the order of the
  batch, each result computed from its own file alone: the list delivered to
  \<^verbatim>\<open>onFilesLoaded\<close> is that list of results, nothing is delivered only when no
  file succeeds, and a file anywhere in the batch, whether it fails or not, leaves the
  results of the files before and after it as they are.
\<close>

theorem batch_isolation:
  "files_after prevFiles (handleFiles ev u files) = prevFiles @ List.map_filter (processFile ev u) files
   \<and> (\<forall>rs. handleFiles ev u files = Some rs \<longrightarrow> rs = List.map_filter (processFile ev u) files)
   \<and> (handleFiles ev u files = None \<longrightarrow> (\<forall>f \<in> set files. processFile ev u f = None))
   \<and> List.map_filter (processFile ev u) (before @ f # after)
       = List.map_filter (processFile ev u) before
         @ (case processFile ev u f of None \<Rightarrow> [] | Some r \<Rightarrow> [r])
         @ List.map_filter (processFile ev u) after"
proof -
  have none: "handleFiles ev u files = None \<longrightarrow> (\<forall>f \<in> set files. processFile ev u f = None)"
    using processFile_unsupported by (auto simp: handleFiles_delivers split: if_splits)
  then have "handleFiles ev u files = None \<longrightarrow> List.map_filter (processFile ev u) files = []"
    using map_filter_none by blast
  then have 1: "files_after prevFiles (handleFiles ev u files)
              = prevFiles @ List.map_filter (processFile ev u) files"
    by (auto simp: files_after_def handleFiles_delivers split: option.splits if_splits)
  have 2: "\<forall>rs. handleFiles ev u files = Some rs \<longrightarrow> rs = List.map_filter (processFile ev u) files"
    by (auto simp: handleFiles_delivers split: if_splits)
  have 3: "List.map_filter (processFile ev u) (before @ f # after)
       = List.map_filter (processFile ev u) before
         @ (case processFile ev u f of None \<Rightarrow> [] | Some r \<Rightarrow> [r])
         @ List.map_filter (processFile ev u) after"
    by (simp add: List.map_filter_def split: option.splits)
  from 1 2 none 3 show ?thesis by blast
qed

text \<open>In the sample batch the unsupported file, the binary file cut short and the
  binary file without triangles are dropped, and the text file with one facet is
  measured: half a square millimetre.\<close>

theorem batch_isolation_witness:
  "\<forall>ev. handleFiles ev ''mm'' sample_batch
          = Some [\<lparr>filename = ''facet.STL'', surfaceArea_dm2 = Fin 0.00005\<rparr>]
       \<and> handleFiles ev ''mm'' (take 3 sample_batch) = Some []
       \<and> handleFiles ev ''mm'' (take 1 sample_batch) = None
       \<and> files_after [] (handleFiles ev ''mm'' (take 1 sample_batch)) = []"
proof
  fix ev
  have n: "processFile ev ''mm'' (File ''notes.txt'' (Inr (bytes_of ''hello''))) = None"
    by (rule processFile_unsupported) code_simp+
  have s: "processFile ev ''mm'' (File ''short.stl'' (Inr (replicate 80 0))) = None"
    by (rule processFile_stl_empty [where buffer = "replicate 80 0"])
       (simp_all add: parseBinarySTL_short, code_simp+)
  have e: "processFile ev ''mm'' (File ''empty.stl'' (Inr (replicate 84 0))) = None"
    by (rule processFile_stl_empty [where buffer = "replicate 84 0"])
       (simp_all add: parseBinarySTL_zero, code_simp+)
  have i: "isASCIISTL (bytes_of one_facet_stl)" by code_simp
  have x: "js_endsWith (js_toLowerCase ''facet.STL'') ''.stl''" by code_simp
  have p: "parseASCIISTL (ascii_decode (bytes_of one_facet_stl))
           = [Triangle (Fin 0, Fin 0, Fin 0) (Fin 1, Fin 0, Fin 0) (Fin 0, Fin 1, Fin 0)]"
    by code_simp
  have ar: "calculateSurfaceArea
              [Triangle (Fin 0, Fin 0, Fin 0) (Fin 1, Fin 0, Fin 0) (Fin 0, Fin 1, Fin 0)] ''mm''
            = Fin 0.00005"
    by (simp add: calculateSurfaceArea_def mm2ToDm2_def calculateTriangleArea_def
        convertedTriangle_def convert_vec_def toMillimeters_def conversions_cases jsub_def)
  have f: "processFile ev ''mm'' (File ''facet.STL'' (Inr (bytes_of one_facet_stl)))
           = Some \<lparr>filename = ''facet.STL'', surfaceArea_dm2 = Fin 0.00005\<rparr>"
    by (simp add: processFile_def processFile_try_def i x p ar)
  have v: "handleFiles ev ''mm'' sample_batch \<noteq> None"
    "handleFiles ev ''mm'' (take 3 sample_batch) \<noteq> None"
    "handleFiles ev ''mm'' (take 1 sample_batch) = None"
    by (simp_all add: handleFiles_def sample_batch_def js_endsWith_def js_toLowerCase_def
        lower_char_def)
  have mf: "List.map_filter (processFile ev ''mm'') sample_batch
            = [\<lparr>filename = ''facet.STL'', surfaceArea_dm2 = Fin 0.00005\<rparr>]"
    "List.map_filter (processFile ev ''mm'') (take 3 sample_batch) = []"
    by (simp_all add: sample_batch_def List.map_filter_simps n s e f)
  from batch_isolation [of "[]" ev "''mm''" sample_batch]
    batch_isolation [of "[]" ev "''mm''" "take 3 sample_batch"]
    batch_isolation [of "[]" ev "''mm''" "take 1 sample_batch"] v mf
  show "handleFiles ev ''mm'' sample_batch
          = Some [\<lparr>filename = ''facet.STL'', surfaceArea_dm2 = Fin 0.00005\<rparr>]
       \<and> handleFiles ev ''mm'' (take 3 sample_batch) = Some []
       \<and> handleFiles ev ''mm'' (take 1 sample_batch) = None
       \<and> files_after [] (handleFiles ev ''mm'' (take 1 sample_batch)) = []"
    by (auto simp: files_after_def)
qed

end
